theory Spec2Isabelle
  imports Main "HOL-Library.AList"
begin

section \<open>Values at the HTTP boundary\<close>

text \<open>
  The server (\<^verbatim>\<open>src/server.js\<close>) is an Express application in front of one process-wide
  \<^verbatim>\<open>Map\<close> of sessions. Request fields are read with \<^verbatim>\<open>const {...} = req.body || {}\<close>
  or from \<^verbatim>\<open>req.query\<close>; a field is modelled as \<open>string option\<close>, \<open>None\<close> being an
  absent field. JavaScript truthiness of such a field: absent and the empty string are
  falsy, every other string is truthy.
\<close>

definition truthy :: "string option \<Rightarrow> bool" where
  "truthy v = (case v of None \<Rightarrow> False | Some s \<Rightarrow> s \<noteq> [])"

text \<open>The string of a field that has passed the truthiness check.\<close>

definition str :: "string option \<Rightarrow> string" where
  "str v = (case v of None \<Rightarrow> [] | Some s \<Rightarrow> s)"

datatype json = JNull | JBool bool | JStr string

text \<open>\<^verbatim>\<open>x || null\<close> for a field \<open>x\<close>, as a stored value and as a JSON value.\<close>

definition or_null :: "string option \<Rightarrow> string option" where
  "or_null v = (if truthy v then v else None)"

definition json_of :: "string option \<Rightarrow> json" where
  "json_of v = (case v of None \<Rightarrow> JNull | Some s \<Rightarrow> JStr s)"

text \<open>
  A response is the status set by \<^verbatim>\<open>res.status\<close> (200 when the handler only calls
  \<^verbatim>\<open>res.json\<close>) and the fields of the JSON object, in the order the source writes them.
\<close>

record response =
  status :: nat
  body :: "(string \<times> json) list"

definition field :: "response \<Rightarrow> string \<Rightarrow> json option" where
  "field r k = map_of (body r) k"

definition fail :: "nat \<Rightarrow> string \<Rightarrow> response" where
  "fail code msg = \<lparr>status = code, body = [(''ok'', JBool False), (''error'', JStr msg)]\<rparr>"

text \<open>
  The error messages of the source. Their accented letters are single UTF-16 code units
  below 256 (e with acute 0xE9, o with acute 0xF3, a with tilde 0xE3, a with acute 0xE1),
  written here by code.
\<close>

definition msg_token :: string where
  "msg_token = ''token '' @ [CHR 0xE9] @ '' obrigat'' @ [CHR 0xF3] @ ''rio''"

definition msg_sessionId :: string where
  "msg_sessionId = ''sessionId '' @ [CHR 0xE9] @ '' obrigat'' @ [CHR 0xF3] @ ''rio''"

definition msg_not_connected :: string where
  "msg_not_connected = ''bot n'' @ [CHR 0xE3] @ ''o conectado''"

definition msg_fields :: string where
  "msg_fields = ''channelId e message s'' @ [CHR 0xE3] @ ''o obrigat'' @ [CHR 0xF3] @ ''rios''"

definition msg_no_channel :: string where
  "msg_no_channel = ''canal n'' @ [CHR 0xE3] @ ''o encontrado''"

definition msg_no_send :: string where
  "msg_no_send = ''canal n'' @ [CHR 0xE3] @ ''o suporta envio de mensagem''"

definition msg_already :: string where
  "msg_already = ''sess'' @ [CHR 0xE3] @ ''o j'' @ [CHR 0xE1] @ '' desconectada''"

text \<open>
  A thrown value \<open>e\<close>, as far as the handlers look at it. \<open>Nullish s\<close> is \<^verbatim>\<open>null\<close> or
  \<^verbatim>\<open>undefined\<close>, with \<open>s\<close> its \<^verbatim>\<open>String(e)\<close>; reading \<^verbatim>\<open>e.message\<close> of such a value
  throws. \<open>Thrown m s\<close> is any other value, with \<open>m\<close> its \<^verbatim>\<open>e.message\<close> (\<open>None\<close> when it
  has none) and \<open>s\<close> its \<^verbatim>\<open>String(e)\<close>. \<open>error_text\<close> is
  \<^verbatim>\<open>(e && e.message) || String(e)\<close>.
\<close>

datatype thrown = Nullish string | Thrown "string option" string

fun error_text :: "thrown \<Rightarrow> string" where
  "error_text (Nullish s) = s"
| "error_text (Thrown m s) = (if truthy m then str m else s)"

text \<open>How a promise settles.\<close>

datatype outcome = Resolved | Rejected thrown

section \<open>The external client and its observers\<close>

text \<open>
  A discord.js \<^verbatim>\<open>Client\<close> is an external object. The model keeps what the handlers
  themselves manipulate: the identity of the object (\<open>cid\<close>, the number of the
  \<^verbatim>\<open>new Client\<close> call that made it) and the observers attached to it. What the client
  reports about itself (\<^verbatim>\<open>user\<close>, \<^verbatim>\<open>isReady()\<close>) and how its promises settle is given
  to each handler by its environment.

  All observers of the source are attached with \<^verbatim>\<open>once\<close>: an emission of an event
  detaches every observer of that event and then runs them in the order of attachment.
  \<^verbatim>\<open>removeListener\<close> detaches the most recently attached matching observer, if any.
\<close>

datatype evname = EvReady | EvError

datatype listener = LogReady | OnReady | OnErr

record client =
  cid :: nat
  listeners :: "(evname \<times> listener) list"

definition once :: "evname \<Rightarrow> listener \<Rightarrow> client \<Rightarrow> client" where
  "once ev l c = c\<lparr>listeners := listeners c @ [(ev, l)]\<rparr>"

definition removeListener :: "evname \<Rightarrow> listener \<Rightarrow> client \<Rightarrow> client" where
  "removeListener ev l c = c\<lparr>listeners := rev (remove1 (ev, l) (rev (listeners c)))\<rparr>"

section \<open>The session registry\<close>

text \<open>
  \<^verbatim>\<open>const sessions = new Map(); // sessionId -> { client, clientId, createdAt }\<close>

  A JavaScript \<^verbatim>\<open>Map\<close> iterates in insertion order; \<^verbatim>\<open>set\<close> on a present key replaces the
  value in place and on an absent key appends. The registry is the list of its entries.
\<close>

record session =
  client :: "client option"
  clientId :: "string option"
  createdAt :: int

type_synonym registry = "(string \<times> session) list"

fun map_get :: "registry \<Rightarrow> string \<Rightarrow> session option" where
  "map_get [] k = None"
| "map_get ((k', v) # r) k = (if k' = k then Some v else map_get r k)"

definition map_has :: "registry \<Rightarrow> string \<Rightarrow> bool" where
  "map_has r k = (map_get r k \<noteq> None)"

fun map_set :: "string \<Rightarrow> session \<Rightarrow> registry \<Rightarrow> registry" where
  "map_set k v [] = [(k, v)]"
| "map_set k v ((k', v') # r) = (if k' = k then (k, v) # r else (k', v') # map_set k v r)"

fun map_delete :: "string \<Rightarrow> registry \<Rightarrow> registry" where
  "map_delete k [] = []"
| "map_delete k ((k', v') # r) = (if k' = k then map_delete k r else (k', v') # map_delete k r)"

text \<open>
  The state of the process: the registry, and the number of clients constructed so far
  (the identity the next \<^verbatim>\<open>new Client\<close> gets).
\<close>

record state =
  sessions :: registry
  next_client :: nat

section \<open>Effects\<close>

text \<open>
  A handler returns the new state, the response it sends, and the effects it performed
  before responding, in order. The functions \<open>disconnect\<close> and \<open>config\<close> below are the
  handlers run from the arrival of the request to its response with no step of another
  handler in between. Both handlers await, and another handler can run at each
  \<^verbatim>\<open>await\<close>: the section on steps splits them there and runs them under a schedule.
\<close>

datatype logline =
    LogExpired string
  | LogBotReady string
  | LogDisconnected string
  | ErrWaitReady string thrown
  | ErrLogin string thrown
  | ErrDisconnect string thrown
  | ErrSend string thrown

datatype event =
    Destroy nat outcome
  | Construct nat
  | Once nat evname listener
  | RemoveListener nat evname listener
  | Emit nat evname
  | Login nat string
  | SetTimeout nat
  | SessionsSet string
  | SessionsDelete string
  | Console logline
  | Fetch nat string
  | Send nat string string

record result =
  st :: state
  resp :: response
  trace :: "event list"

text \<open>The number of \<^verbatim>\<open>destroy()\<close> calls made on client \<open>c\<close>.\<close>

fun is_destroy :: "nat \<Rightarrow> event \<Rightarrow> bool" where
  "is_destroy c (Destroy c' out) = (c' = c)"
| "is_destroy c _ = False"

definition destroy_requests :: "nat \<Rightarrow> event list \<Rightarrow> nat" where
  "destroy_requests c tr = length (filter (is_destroy c) tr)"

fun any_destroy :: "event \<Rightarrow> bool" where
  "any_destroy (Destroy c out) = True"
| "any_destroy _ = False"

section \<open>POST /api/disconnect\<close>

text \<open>
  \<open>out\<close> is how \<^verbatim>\<open>await session.client.destroy()\<close> settles, should it be called.
\<close>

definition disconnect :: "outcome \<Rightarrow> string option \<Rightarrow> state \<Rightarrow> result" where
  "disconnect out sessionId w =
    (if \<not> truthy sessionId then \<lparr>st = w, resp = fail 400 msg_sessionId, trace = []\<rparr>
     else
       (case map_get (sessions w) (str sessionId) of
          None \<Rightarrow>
            \<lparr>st = w,
             resp = \<lparr>status = 200, body = [(''ok'', JBool True), (''message'', JStr msg_already)]\<rparr>,
             trace = []\<rparr>
        | Some s \<Rightarrow>
            \<lparr>st = w\<lparr>sessions := map_delete (str sessionId) (sessions w)\<rparr>,
             resp = \<lparr>status = 200, body = [(''ok'', JBool True)]\<rparr>,
             trace =
               (case client s of
                  None \<Rightarrow> []
                | Some c \<Rightarrow>
                    [Destroy (cid c) out,
                     Console (case out of
                                Resolved \<Rightarrow> LogDisconnected (str sessionId)
                              | Rejected e \<Rightarrow> ErrDisconnect (str sessionId) e)])
               @ [SessionsDelete (str sessionId)]\<rparr>))"

section \<open>GET /api/status\<close>

text \<open>
  \<open>isReady c\<close> is what \<^verbatim>\<open>isReady()\<close> of the client with identity \<open>c\<close> answers when the
  request is served.
\<close>

definition online :: "(nat \<Rightarrow> bool) \<Rightarrow> registry \<Rightarrow> string \<Rightarrow> bool" where
  "online isReady r k =
    (case map_get r k of
       None \<Rightarrow> False
     | Some s \<Rightarrow> (case client s of None \<Rightarrow> False | Some c \<Rightarrow> isReady (cid c)))"

definition status_handler :: "(nat \<Rightarrow> bool) \<Rightarrow> string option \<Rightarrow> state \<Rightarrow> result" where
  "status_handler isReady sessionId w =
    (if \<not> truthy sessionId then \<lparr>st = w, resp = fail 400 msg_sessionId, trace = []\<rparr>
     else \<lparr>st = w,
           resp = \<lparr>status = 200,
                   body = [(''online'', JBool (online isReady (sessions w) (str sessionId)))]\<rparr>,
           trace = []\<rparr>)"

section \<open>The periodic sweep\<close>

text \<open>
  The body of the \<^verbatim>\<open>setInterval\<close> callback, for \<open>now = Date.now()\<close>. The loop visits the
  entries in the registry's order; deleting the entry being visited does not disturb the
  iteration of a JavaScript \<^verbatim>\<open>Map\<close>. \<open>destroy c\<close> is how the promise of
  \<^verbatim>\<open>session.client.destroy()\<close> settles for client \<open>c\<close>; the source attaches
  \<^verbatim>\<open>.catch(() => {})\<close> to it and does not await it.
\<close>

definition expired :: "int \<Rightarrow> session \<Rightarrow> bool" where
  "expired now s = (now - createdAt s > 3600000)"

fun sweep_loop ::
  "(nat \<Rightarrow> outcome) \<Rightarrow> int \<Rightarrow> registry \<Rightarrow> registry \<times> event list \<Rightarrow> registry \<times> event list"
where
  "sweep_loop destroy now [] acc = acc"
| "sweep_loop destroy now ((k, s) # es) (r, tr) =
     sweep_loop destroy now es
       (if expired now s then
          (map_delete k r,
           tr @ (case client s of None \<Rightarrow> [] | Some c \<Rightarrow> [Destroy (cid c) (destroy (cid c))])
              @ [SessionsDelete k, Console (LogExpired k)])
        else (r, tr))"

definition sweep :: "(nat \<Rightarrow> outcome) \<Rightarrow> int \<Rightarrow> state \<Rightarrow> state \<times> event list" where
  "sweep destroy now w =
    (w\<lparr>sessions := fst (sweep_loop destroy now (sessions w) (sessions w, []))\<rparr>,
     snd (sweep_loop destroy now (sessions w) (sessions w, [])))"

section \<open>POST /api/config\<close>

text \<open>
  What the environment decides during one configuration request:
  \<^item> \<open>destroy_old\<close>: how \<^verbatim>\<open>await oldSession.client.destroy()\<close> settles;
  \<^item> \<open>construct\<close>: the value \<^verbatim>\<open>new Client(...)\<close> throws, if it throws;
  \<^item> \<open>login\<close>: how \<^verbatim>\<open>await discordClient.login(token)\<close> settles; when it resolves,
    whether the client emitted \<^verbatim>\<open>ready\<close> while the login was pending, and the tag of
    \<^verbatim>\<open>discordClient.user\<close> at that moment (\<open>None\<close> when \<^verbatim>\<open>user\<close> is not set);
  \<^item> \<open>wait\<close>: which of the three ends of the bounded wait comes first;
  \<^item> \<open>user_after_wait\<close>: the tag of \<^verbatim>\<open>discordClient.user\<close> once the wait is over;
  \<^item> \<open>date_now\<close>: \<^verbatim>\<open>Date.now()\<close> when the record is stored.
\<close>

datatype login_result = LoginRejected thrown | LoginResolved bool "string option"

datatype wait_result = ReadyFired | ErrorFired thrown | TimedOut

record config_env =
  destroy_old :: outcome
  construct :: "thrown option"
  login :: login_result
  wait :: wait_result
  user_after_wait :: "string option"
  date_now :: int

record config_req =
  cfg_token :: "string option"
  cfg_clientId :: "string option"
  cfg_sessionId :: "string option"

text \<open>
  The handshake threads the new client and the effects so far. \<open>cleanup\<close> is the closure
  of the wait; \<open>run_listener\<close> is what each of the three observers does when called;
  \<open>emit\<close> is the client emitting an event.
\<close>

type_synonym hs = "client \<times> event list"

definition cleanup :: "hs \<Rightarrow> hs" where
  "cleanup a =
    (removeListener EvError OnErr (removeListener EvReady OnReady (fst a)),
     snd a @ [RemoveListener (cid (fst a)) EvReady OnReady,
              RemoveListener (cid (fst a)) EvError OnErr])"

fun run_listener :: "string \<Rightarrow> hs \<Rightarrow> listener \<Rightarrow> hs" where
  "run_listener sid a LogReady = (fst a, snd a @ [Console (LogBotReady sid)])"
| "run_listener sid a OnReady = cleanup a"
| "run_listener sid a OnErr = cleanup a"

definition emit :: "string \<Rightarrow> evname \<Rightarrow> hs \<Rightarrow> hs" where
  "emit sid ev a =
    foldl (run_listener sid)
      ((fst a)\<lparr>listeners := filter (\<lambda>p. fst p \<noteq> ev) (listeners (fst a))\<rparr>,
       snd a @ [Emit (cid (fst a)) ev])
      (map snd (filter (\<lambda>p. fst p = ev) (listeners (fst a))))"

text \<open>Lines 61 to 77: the bounded wait, entered when \<^verbatim>\<open>discordClient.user\<close> is not set.\<close>

definition attach_wait :: "hs \<Rightarrow> hs" where
  "attach_wait a =
    (once EvError OnErr (once EvReady OnReady (fst a)),
     snd a @ [Once (cid (fst a)) EvReady OnReady, Once (cid (fst a)) EvError OnErr,
              SetTimeout 5000])"

definition wait_ready :: "string \<Rightarrow> wait_result \<Rightarrow> hs \<Rightarrow> hs" where
  "wait_ready sid wr a =
    (case wr of
       ReadyFired \<Rightarrow> emit sid EvReady (attach_wait a)
     | ErrorFired e \<Rightarrow>
         (fst (emit sid EvError (attach_wait a)),
          snd (emit sid EvError (attach_wait a)) @ [Console (ErrWaitReady sid e)])
     | TimedOut \<Rightarrow> cleanup (attach_wait a))"

text \<open>Lines 42 to 47: the previous client of the key, if any, is asked to shut down.\<close>

definition destroy_previous :: "outcome \<Rightarrow> registry \<Rightarrow> string \<Rightarrow> event list" where
  "destroy_previous out r sid =
    (case map_get r sid of
       None \<Rightarrow> []
     | Some old \<Rightarrow> (case client old of None \<Rightarrow> [] | Some oc \<Rightarrow> [Destroy (cid oc) out]))"

text \<open>Lines 92 to 96: the handler's \<^verbatim>\<open>catch\<close>.\<close>

definition config_catch :: "string \<Rightarrow> thrown \<Rightarrow> state \<Rightarrow> event list \<Rightarrow> result" where
  "config_catch sid e w tr =
    \<lparr>st = w\<lparr>sessions := map_delete sid (sessions w)\<rparr>,
     resp = fail 500 (error_text e),
     trace = tr @ [SessionsDelete sid, Console (ErrLogin sid e)]\<rparr>"

definition config_ok :: "config_env \<Rightarrow> config_req \<Rightarrow> state \<Rightarrow> hs \<Rightarrow> string option \<Rightarrow> result" where
  "config_ok env req w a tag =
    \<lparr>st = w\<lparr>sessions :=
              map_set (str (cfg_sessionId req))
                \<lparr>client = Some (fst a), clientId = or_null (cfg_clientId req),
                 createdAt = date_now env\<rparr>
                (sessions w)\<rparr>,
     resp = \<lparr>status = 200,
             body = [(''ok'', JBool True),
                     (''sessionId'', JStr (str (cfg_sessionId req))),
                     (''clientId'', json_of (or_null (cfg_clientId req))),
                     (''botTag'', json_of tag)]\<rparr>,
     trace = snd a @ [SessionsSet (str (cfg_sessionId req))]\<rparr>"

text \<open>Lines 49 to 58: the new client, its logging observer, and the login.\<close>

definition fresh_client :: "config_req \<Rightarrow> state \<Rightarrow> event list \<Rightarrow> hs" where
  "fresh_client req w tr =
    (once EvReady LogReady \<lparr>cid = next_client w, listeners = []\<rparr>,
     tr @ [Construct (next_client w), Once (next_client w) EvReady LogReady,
           Login (next_client w) (str (cfg_token req))])"

definition config :: "config_env \<Rightarrow> config_req \<Rightarrow> state \<Rightarrow> result" where
  "config env req w =
    (if \<not> truthy (cfg_token req) then \<lparr>st = w, resp = fail 400 msg_token, trace = []\<rparr>
     else if \<not> truthy (cfg_sessionId req) then
       \<lparr>st = w, resp = fail 400 msg_sessionId, trace = []\<rparr>
     else
       (case construct env of
          Some e \<Rightarrow>
            config_catch (str (cfg_sessionId req)) e w
              (destroy_previous (destroy_old env) (sessions w) (str (cfg_sessionId req)))
        | None \<Rightarrow>
            (let sid = str (cfg_sessionId req);
                 w1 = w\<lparr>next_client := Suc (next_client w)\<rparr>;
                 a1 = fresh_client req w (destroy_previous (destroy_old env) (sessions w) sid)
             in case login env of
                  LoginRejected e \<Rightarrow> config_catch sid e w1 (snd a1)
                | LoginResolved fired usr \<Rightarrow>
                    (let a2 = (if fired then emit sid EvReady a1 else a1)
                     in if usr = None
                        then config_ok env req w1 (wait_ready sid (wait env) a2)
                               (user_after_wait env)
                        else config_ok env req w1 a2 usr))))"

section \<open>POST /api/send\<close>

text \<open>
  The environment of a send: what \<^verbatim>\<open>isReady()\<close> answers, how
  \<^verbatim>\<open>channels.fetch(channelId)\<close> settles (rejected, resolved with no channel, resolved with
  a channel that has or has not a \<^verbatim>\<open>send\<close>), and how \<^verbatim>\<open>channel.send\<close> settles (the
  identifier of the sent message when it resolves). The handler answers \<open>Some r\<close>, or
  throws without an answer, \<open>None\<close>.
\<close>

datatype fetch_result = FetchRejected thrown | FetchNull | FetchChannel bool

datatype send_result = SendRejected thrown | SendResolved string

record send_env =
  is_ready :: "nat \<Rightarrow> bool"
  fetch :: fetch_result
  sent :: send_result

record send_req =
  snd_channelId :: "string option"
  snd_message :: "string option"
  snd_sessionId :: "string option"

text \<open>
  Lines 186 to 189: the handler's \<^verbatim>\<open>catch\<close>. It logs, then answers 500 with
  \<^verbatim>\<open>e.message || String(e)\<close>. For \<^verbatim>\<open>null\<close> or \<^verbatim>\<open>undefined\<close> reading \<^verbatim>\<open>e.message\<close>
  throws out of the handler, which then sends no answer: the result is \<open>None\<close>.
\<close>

fun send_catch :: "string \<Rightarrow> thrown \<Rightarrow> state \<Rightarrow> event list \<Rightarrow> result option" where
  "send_catch sid (Nullish s) w tr = None"
| "send_catch sid (Thrown m s) w tr =
     Some \<lparr>st = w, resp = fail 500 (if truthy m then str m else s),
           trace = tr @ [Console (ErrSend sid (Thrown m s))]\<rparr>"

definition relay :: "send_env \<Rightarrow> send_req \<Rightarrow> state \<Rightarrow> nat \<Rightarrow> result option" where
  "relay env req w c =
    (let sid = str (snd_sessionId req); ch = str (snd_channelId req); m = str (snd_message req)
     in case fetch env of
          FetchRejected e \<Rightarrow> send_catch sid e w [Fetch c ch]
        | FetchNull \<Rightarrow> Some \<lparr>st = w, resp = fail 404 msg_no_channel, trace = [Fetch c ch]\<rparr>
        | FetchChannel has_send \<Rightarrow>
            if \<not> has_send then
              Some \<lparr>st = w, resp = fail 400 msg_no_send, trace = [Fetch c ch]\<rparr>
            else
              (case sent env of
                 SendRejected e \<Rightarrow> send_catch sid e w [Fetch c ch, Send c ch m]
               | SendResolved i \<Rightarrow>
                   Some \<lparr>st = w,
                         resp = \<lparr>status = 200, body = [(''ok'', JBool True), (''id'', JStr i)]\<rparr>,
                         trace = [Fetch c ch, Send c ch m]\<rparr>))"

definition send :: "send_env \<Rightarrow> send_req \<Rightarrow> state \<Rightarrow> result option" where
  "send env req w =
    (if \<not> truthy (snd_sessionId req) then
       Some \<lparr>st = w, resp = fail 400 msg_sessionId, trace = []\<rparr>
     else
       (case map_get (sessions w) (str (snd_sessionId req)) of
          None \<Rightarrow> Some \<lparr>st = w, resp = fail 400 msg_not_connected, trace = []\<rparr>
        | Some s \<Rightarrow>
            (case client s of
               None \<Rightarrow> Some \<lparr>st = w, resp = fail 400 msg_not_connected, trace = []\<rparr>
             | Some c \<Rightarrow>
                 if \<not> is_ready env (cid c) then
                   Some \<lparr>st = w, resp = fail 400 msg_not_connected, trace = []\<rparr>
                 else if \<not> truthy (snd_channelId req) \<or> \<not> truthy (snd_message req) then
                   Some \<lparr>st = w, resp = fail 400 msg_fields, trace = []\<rparr>
                 else relay env req w (cid c))))"

section \<open>The handlers step by step\<close>

text \<open>
  An \<^verbatim>\<open>async\<close> handler runs until its next \<^verbatim>\<open>await\<close> and gives control back; other
  handlers and the sweep run before the awaited promise settles and the handler goes on.
  POST /api/config awaits at line 45 (the previous client's \<^verbatim>\<open>destroy\<close>, only when there
  is one), at line 58 (the login) and at line 63 (the bounded wait, only when the client has
  no user). It reads the registry before the first of these and writes it after the last.
  A task is where a configuration request stands.
\<close>

datatype task = AwaitDestroy | AwaitLogin client | AwaitWait client | Responded response

record progress =
  p_state :: state
  p_task :: task
  p_effects :: "event list"

definition finish :: "result \<Rightarrow> progress" where
  "finish r = \<lparr>p_state = st r, p_task = Responded (resp r), p_effects = trace r\<rparr>"

text \<open>Lines 49 to 58, run in one piece up to the \<^verbatim>\<open>await\<close> of the login.\<close>

definition config_construct :: "config_env \<Rightarrow> config_req \<Rightarrow> state \<Rightarrow> progress" where
  "config_construct env req w =
    (case construct env of
       Some e \<Rightarrow> finish (config_catch (str (cfg_sessionId req)) e w [])
     | None \<Rightarrow>
         \<lparr>p_state = w\<lparr>next_client := Suc (next_client w)\<rparr>,
          p_task = AwaitLogin (fst (fresh_client req w [])),
          p_effects = snd (fresh_client req w [])\<rparr>)"

text \<open>From the arrival of the request to its first \<^verbatim>\<open>await\<close> or its response.\<close>

definition config_start :: "config_env \<Rightarrow> config_req \<Rightarrow> state \<Rightarrow> progress" where
  "config_start env req w =
    (if \<not> truthy (cfg_token req) then
       \<lparr>p_state = w, p_task = Responded (fail 400 msg_token), p_effects = []\<rparr>
     else if \<not> truthy (cfg_sessionId req) then
       \<lparr>p_state = w, p_task = Responded (fail 400 msg_sessionId), p_effects = []\<rparr>
     else if destroy_previous (destroy_old env) (sessions w) (str (cfg_sessionId req)) = [] then
       config_construct env req w
     else
       \<lparr>p_state = w, p_task = AwaitDestroy,
        p_effects = destroy_previous (destroy_old env) (sessions w) (str (cfg_sessionId req))\<rparr>)"

text \<open>The end of the bounded wait: what happens after the observers were attached.\<close>

definition wait_end :: "string \<Rightarrow> wait_result \<Rightarrow> hs \<Rightarrow> hs" where
  "wait_end sid wr b =
    (case wr of
       ReadyFired \<Rightarrow> emit sid EvReady b
     | ErrorFired e \<Rightarrow>
         (fst (emit sid EvError b), snd (emit sid EvError b) @ [Console (ErrWaitReady sid e)])
     | TimedOut \<Rightarrow> cleanup b)"

text \<open>
  From the settling of the awaited promise to the next \<^verbatim>\<open>await\<close> or the response, on
  the state \<open>w\<close> the process has by then.
\<close>

definition config_resume :: "config_env \<Rightarrow> config_req \<Rightarrow> task \<Rightarrow> state \<Rightarrow> progress" where
  "config_resume env req t w =
    (case t of
       AwaitDestroy \<Rightarrow> config_construct env req w
     | AwaitLogin c \<Rightarrow>
         (case login env of
            LoginRejected e \<Rightarrow> finish (config_catch (str (cfg_sessionId req)) e w [])
          | LoginResolved fired usr \<Rightarrow>
              (let a2 = (if fired then emit (str (cfg_sessionId req)) EvReady (c, []) else (c, []))
               in if usr = None
                  then \<lparr>p_state = w, p_task = AwaitWait (fst (attach_wait a2)),
                        p_effects = snd (attach_wait a2)\<rparr>
                  else finish (config_ok env req w a2 usr)))
     | AwaitWait c \<Rightarrow>
         finish (config_ok env req w (wait_end (str (cfg_sessionId req)) (wait env) (c, []))
                   (user_after_wait env))
     | Responded r \<Rightarrow> \<lparr>p_state = w, p_task = Responded r, p_effects = []\<rparr>)"

text \<open>
  POST /api/disconnect awaits at line 111, when the record has a client; it deletes the
  key after that. A job is a request in progress or answered.
\<close>

datatype job =
    Configuring config_env config_req task
  | Disconnecting outcome string
  | Answered response

definition job_of :: "config_env \<Rightarrow> config_req \<Rightarrow> task \<Rightarrow> job" where
  "job_of env req t = (case t of Responded r \<Rightarrow> Answered r | _ \<Rightarrow> Configuring env req t)"

definition disconnect_start :: "outcome \<Rightarrow> string option \<Rightarrow> state \<Rightarrow> state \<times> job \<times> event list" where
  "disconnect_start out sessionId w =
    (if \<not> truthy sessionId then (w, Answered (fail 400 msg_sessionId), [])
     else
       (case map_get (sessions w) (str sessionId) of
          None \<Rightarrow>
            (w, Answered \<lparr>status = 200,
                          body = [(''ok'', JBool True), (''message'', JStr msg_already)]\<rparr>, [])
        | Some s \<Rightarrow>
            (case client s of
               None \<Rightarrow>
                 (w\<lparr>sessions := map_delete (str sessionId) (sessions w)\<rparr>,
                  Answered \<lparr>status = 200, body = [(''ok'', JBool True)]\<rparr>,
                  [SessionsDelete (str sessionId)])
             | Some c \<Rightarrow> (w, Disconnecting out (str sessionId), [Destroy (cid c) out]))))"

definition disconnect_resume :: "outcome \<Rightarrow> string \<Rightarrow> state \<Rightarrow> state \<times> job \<times> event list" where
  "disconnect_resume out sid w =
    (w\<lparr>sessions := map_delete sid (sessions w)\<rparr>,
     Answered \<lparr>status = 200, body = [(''ok'', JBool True)]\<rparr>,
     [Console (case out of Resolved \<Rightarrow> LogDisconnected sid | Rejected e \<Rightarrow> ErrDisconnect sid e),
      SessionsDelete sid])"

definition resume_job :: "job \<Rightarrow> state \<Rightarrow> state \<times> job \<times> event list" where
  "resume_job j w =
    (case j of
       Configuring env req t \<Rightarrow>
         (p_state (config_resume env req t w),
          job_of env req (p_task (config_resume env req t w)),
          p_effects (config_resume env req t w))
     | Disconnecting out sid \<Rightarrow> disconnect_resume out sid w
     | Answered r \<Rightarrow> (w, Answered r, []))"

text \<open>
  The process: the state, the requests received so far, and every effect so far in order.
  An action is the arrival of a request, the settling of the promise a job awaits (the job
  is named by its position), or a firing of the sweep's timer. A schedule is a list of
  actions; any order is possible.
\<close>

record system =
  sys_state :: state
  sys_jobs :: "job list"
  sys_trace :: "event list"

datatype action =
    Start config_env config_req
  | StartDisconnect outcome "string option"
  | Resume nat
  | Sweep "nat \<Rightarrow> outcome" int

fun act :: "action \<Rightarrow> system \<Rightarrow> system" where
  "act (Start env req) s =
     \<lparr>sys_state = p_state (config_start env req (sys_state s)),
      sys_jobs = sys_jobs s @ [job_of env req (p_task (config_start env req (sys_state s)))],
      sys_trace = sys_trace s @ p_effects (config_start env req (sys_state s))\<rparr>"
| "act (StartDisconnect out sessionId) s =
     \<lparr>sys_state = fst (disconnect_start out sessionId (sys_state s)),
      sys_jobs = sys_jobs s @ [fst (snd (disconnect_start out sessionId (sys_state s)))],
      sys_trace = sys_trace s @ snd (snd (disconnect_start out sessionId (sys_state s)))\<rparr>"
| "act (Resume i) s =
     (if i < length (sys_jobs s) then
        \<lparr>sys_state = fst (resume_job (sys_jobs s ! i) (sys_state s)),
         sys_jobs = (sys_jobs s)[i := fst (snd (resume_job (sys_jobs s ! i) (sys_state s)))],
         sys_trace = sys_trace s @ snd (snd (resume_job (sys_jobs s ! i) (sys_state s)))\<rparr>
      else s)"
| "act (Sweep destroy now) s =
     \<lparr>sys_state = fst (sweep destroy now (sys_state s)),
      sys_jobs = sys_jobs s,
      sys_trace = sys_trace s @ snd (sweep destroy now (sys_state s))\<rparr>"

fun run :: "action list \<Rightarrow> system \<Rightarrow> system" where
  "run [] s = s"
| "run (a # as) s = run as (act a s)"

text \<open>The process starts with an empty registry and no request.\<close>

definition init :: state where
  "init = \<lparr>sessions = [], next_client = 0\<rparr>"








text \<open>
  \<open>precedes a b tr\<close>: effect \<open>a\<close> occurs in \<open>tr\<close>, effect \<open>b\<close> occurs after it, and no
  \<open>b\<close> occurs before the first \<open>a\<close>.
\<close>

fun precedes :: "event \<Rightarrow> event \<Rightarrow> event list \<Rightarrow> bool" where
  "precedes a b [] = False"
| "precedes a b (x # xs) =
     (if x = a then b \<in> set xs else if x = b then False else precedes a b xs)"

section \<open>Concrete requests and environments\<close>

definition ex_err :: thrown where
  "ex_err = Thrown (Some ''boom'') ''Error: boom''"

definition ex_req :: config_req where
  "ex_req = \<lparr>cfg_token = Some ''tok'', cfg_clientId = Some ''app1'', cfg_sessionId = Some ''s1''\<rparr>"

text \<open>Login resolves with no user yet, and the wait ends by its timeout.\<close>

definition ex_env_timeout :: config_env where
  "ex_env_timeout =
    \<lparr>destroy_old = Resolved, construct = None, login = LoginResolved False None,
     wait = TimedOut, user_after_wait = None, date_now = 1000\<rparr>"

text \<open>Login resolves with no user yet, and the client emits \<^verbatim>\<open>error\<close> during the wait.\<close>

definition ex_env_error :: config_env where
  "ex_env_error =
    \<lparr>destroy_old = Resolved, construct = None, login = LoginResolved False None,
     wait = ErrorFired ex_err, user_after_wait = None, date_now = 1000\<rparr>"

text \<open>Login is rejected.\<close>

definition ex_env_bad :: config_env where
  "ex_env_bad =
    \<lparr>destroy_old = Resolved, construct = None, login = LoginRejected ex_err,
     wait = TimedOut, user_after_wait = None, date_now = 2000\<rparr>"

text \<open>Login resolves with the user set: the wait is skipped.\<close>

definition ex_env_ready :: config_env where
  "ex_env_ready =
    \<lparr>destroy_old = Rejected ex_err, construct = None,
     login = LoginResolved True (Some ''bot#0001''),
     wait = TimedOut, user_after_wait = None, date_now = 5000\<rparr>"

text \<open>The state after session \<open>s1\<close> has been configured once.\<close>

definition ex_state :: state where
  "ex_state = st (config ex_env_timeout ex_req init)"




definition ex_send_req :: send_req where
  "ex_send_req = \<lparr>snd_channelId = None, snd_message = None, snd_sessionId = Some ''s1''\<rparr>"

definition ex_send_env :: send_env where
  "ex_send_env = \<lparr>is_ready = (\<lambda>c. False), fetch = FetchNull, sent = SendResolved ''m1''\<rparr>"

text \<open>
  Three sessions of age 3600001, 3600000 and 3599001 ms at time 3600001, the second
  without a client.
\<close>

definition ex_sweep_state :: state where
  "ex_sweep_state =
    \<lparr>sessions =
       [(''a'', \<lparr>client = Some \<lparr>cid = 0, listeners = []\<rparr>, clientId = None, createdAt = 0\<rparr>),
        (''b'', \<lparr>client = None, clientId = None, createdAt = 1\<rparr>),
        (''c'', \<lparr>client = Some \<lparr>cid = 2, listeners = []\<rparr>, clientId = None,
                createdAt = 1000\<rparr>)],
     next_client = 3\<rparr>"

section \<open>Facts about the registry\<close>

text \<open>The three operations of the registry are the association-list operations.\<close>

lemma map_get_map_of: "map_get r k = map_of r k"
  by (induction r) auto

lemma map_set_update: "map_set k v r = AList.update k v r"
  by (induction r) auto

lemma map_delete_delete: "map_delete k r = AList.delete k r"
  by (induction r) auto

lemma map_delete_filter: "map_delete k r = filter (\<lambda>p. fst p \<noteq> k) r"
  by (induction r) auto

lemma map_get_delete: "map_get (map_delete k r) k' = (if k' = k then None else map_get r k')"
  by (simp add: map_get_map_of map_delete_delete delete_conv')

lemma map_get_set: "map_get (map_set k v r) k' = (if k' = k then Some v else map_get r k')"
  by (simp add: map_get_map_of map_set_update update_conv')




section \<open>Disconnecting an absent session\<close>

lemma disconnect_absent:
  assumes "truthy sessionId" and "map_get (sessions w) (str sessionId) = None"
  shows "disconnect out sessionId w =
     \<lparr>st = w, resp = \<lparr>status = 200, body = [(''ok'', JBool True), (''message'', JStr msg_already)]\<rparr>, trace = []\<rparr>"
  using assms by (simp add: disconnect_def)

text \<open>
  Claim C6. Disconnect is idempotent: for a session identifier that has no record,
  POST /api/disconnect answers 200 with \<open>ok: true\<close>, calls \<^verbatim>\<open>destroy\<close> on no client and
  leaves the state as it was; a second disconnect for the same identifier does the same,
  however the \<^verbatim>\<open>destroy\<close> promises would settle.
\<close>

theorem disconnect_absent_idempotent:
  assumes "truthy sessionId" and "map_get (sessions w) (str sessionId) = None"
  shows "status (resp (disconnect out sessionId w)) = 200
       \<and> field (resp (disconnect out sessionId w)) ''ok'' = Some (JBool True)
       \<and> filter any_destroy (trace (disconnect out sessionId w)) = []
       \<and> st (disconnect out sessionId w) = w
       \<and> status (resp (disconnect out' sessionId (st (disconnect out sessionId w)))) = 200
       \<and> field (resp (disconnect out' sessionId (st (disconnect out sessionId w)))) ''ok'' = Some (JBool True)
       \<and> filter any_destroy (trace (disconnect out' sessionId (st (disconnect out sessionId w)))) = []
       \<and> st (disconnect out' sessionId (st (disconnect out sessionId w))) = w"
  by (simp add: disconnect_absent [OF assms] field_def)

theorem disconnect_absent_idempotent_witness:
  "truthy (Some ''never'') \<and> map_get (sessions ex_state) (str (Some ''never'')) = None
   \<and> status (resp (disconnect Resolved (Some ''never'') ex_state)) = 200
   \<and> field (resp (disconnect Resolved (Some ''never'') ex_state)) ''ok'' = Some (JBool True)
   \<and> st (disconnect Resolved (Some ''never'') (st (disconnect Resolved (Some ''never'') ex_state))) = ex_state"
proof -
  have h1: "truthy (Some ''never'')" by (simp add: truthy_def)
  have h2: "map_get (sessions ex_state) (str (Some ''never'')) = None"
    by (simp add: ex_state_def config_def ex_env_timeout_def ex_req_def init_def truthy_def str_def
        config_ok_def fresh_client_def destroy_previous_def wait_ready_def cleanup_def attach_wait_def)
  from disconnect_absent_idempotent [OF h1 h2, of Resolved Resolved] h1 h2 show ?thesis by simp
qed

lemmas handshake_defs = fresh_client_def destroy_previous_def wait_ready_def cleanup_def
  attach_wait_def emit_def once_def removeListener_def

lemmas example_defs = ex_req_def ex_env_timeout_def ex_env_error_def ex_env_bad_def
  ex_env_ready_def ex_err_def init_def truthy_def str_def or_null_def

lemma ex_state_eq:
  "ex_state =
    \<lparr>sessions = [(''s1'', \<lparr>client = Some \<lparr>cid = 0, listeners = [(EvReady, LogReady)]\<rparr>,
                           clientId = Some ''app1'', createdAt = 1000\<rparr>)],
     next_client = 1\<rparr>"
  by (simp add: ex_state_def config_def config_ok_def handshake_defs example_defs)

section \<open>Failed configuration\<close>

lemma config_catch_get:
  "map_get (sessions (st (config_catch sid e w tr))) sid = None"
  by (simp add: config_catch_def map_get_delete)

lemma config_rejected:
  assumes "truthy (cfg_token req)" and "truthy (cfg_sessionId req)"
    and "construct env = Some e \<or> (construct env = None \<and> login env = LoginRejected e)"
  shows "\<exists>w' tr. config env req w = config_catch (str (cfg_sessionId req)) e w' tr"
proof -
  from assms(3) show ?thesis
  proof
    assume "construct env = Some e"
    with assms(1,2) have "config env req w = config_catch (str (cfg_sessionId req)) e w
        (destroy_previous (destroy_old env) (sessions w) (str (cfg_sessionId req)))"
      by (simp add: config_def)
    then show ?thesis by blast
  next
    assume "construct env = None \<and> login env = LoginRejected e"
    with assms(1,2) have "config env req w = config_catch (str (cfg_sessionId req)) e
        (w\<lparr>next_client := Suc (next_client w)\<rparr>)
        (snd (fresh_client req w
           (destroy_previous (destroy_old env) (sessions w) (str (cfg_sessionId req)))))"
      by (simp add: config_def Let_def)
    then show ?thesis by blast
  qed
qed

lemma config_500:
  assumes "status (resp (config env req w)) = 500"
  shows "map_get (sessions (st (config env req w))) (str (cfg_sessionId req)) = None"
  using assms
  by (auto simp: config_def Let_def fail_def config_ok_def config_catch_get
      split: if_splits option.splits login_result.splits)

section \<open>Status\<close>

text \<open>
  Claim C7. For every GET /api/status request with a session identifier, the response is
  \<open>{online: b}\<close>, where \<open>b\<close> is true exactly when a record exists for the identifier, its
  client is set and the client reports itself ready. For an identifier with no record the
  response is \<open>{online: false}\<close>; so it is after a configuration of that identifier that
  failed with HTTP 500.
\<close>

theorem status_online_iff:
  assumes "truthy sessionId"
  shows "resp (status_handler isReady sessionId w) =
           \<lparr>status = 200,
            body = [(''online'',
                     JBool (\<exists>s c. map_get (sessions w) (str sessionId) = Some s
                                 \<and> client s = Some c \<and> isReady (cid c)))]\<rparr>
       \<and> (map_get (sessions w) (str sessionId) = None \<longrightarrow>
            resp (status_handler isReady sessionId w) =
              \<lparr>status = 200, body = [(''online'', JBool False)]\<rparr>)
       \<and> (cfg_sessionId req = sessionId \<and> status (resp (config env req w)) = 500 \<longrightarrow>
            resp (status_handler isReady sessionId (st (config env req w))) =
              \<lparr>status = 200, body = [(''online'', JBool False)]\<rparr>)"
proof -
  have a: "online isReady r k =
      (\<exists>s c. map_get r k = Some s \<and> client s = Some c \<and> isReady (cid c))" for r k
    by (auto simp: online_def split: option.splits)
  have b: "map_get r k = None \<Longrightarrow> \<not> online isReady r k" for r k
    by (simp add: online_def)
  have c: "cfg_sessionId req = sessionId \<and> status (resp (config env req w)) = 500 \<longrightarrow>
      \<not> online isReady (sessions (st (config env req w))) (str sessionId)"
    using b config_500 by blast
  show ?thesis
    using assms b c unfolding a [symmetric] by (simp add: status_handler_def)
qed

theorem status_online_iff_witness:
  "truthy (Some ''s1'')
   \<and> resp (status_handler (\<lambda>c. c = 0) (Some ''s1'') ex_state) =
       \<lparr>status = 200, body = [(''online'', JBool True)]\<rparr>
   \<and> cfg_sessionId ex_req = Some ''s1'' \<and> status (resp (config ex_env_bad ex_req ex_state)) = 500
   \<and> resp (status_handler (\<lambda>c. c = 0) (Some ''s1'') (st (config ex_env_bad ex_req ex_state))) =
       \<lparr>status = 200, body = [(''online'', JBool False)]\<rparr>"
proof -
  have h1: "truthy (Some ''s1'')" by (simp add: truthy_def)
  have h2: "cfg_sessionId ex_req = Some ''s1''" by (simp add: ex_req_def)
  have h3: "status (resp (config ex_env_bad ex_req ex_state)) = 500"
    by (simp add: config_def config_catch_def fail_def example_defs Let_def)
  have e: "\<exists>s c. map_get (sessions ex_state) (str (Some ''s1'')) = Some s
                 \<and> client s = Some c \<and> cid c = 0"
    by (simp add: ex_state_eq str_def)
  from status_online_iff [OF h1, of "\<lambda>c. c = 0" ex_state ex_req ex_env_bad] h1 h2 h3 e
  show ?thesis by simp
qed

section \<open>Sending to a session that is not connected\<close>

lemma send_catch_not_fields:
  "map_option resp (send_catch sid e w tr) \<noteq> Some (fail 400 msg_fields)"
  by (cases e) (simp_all add: fail_def)

lemma relay_not_fields: "map_option resp (relay env req w c) \<noteq> Some (fail 400 msg_fields)"
proof (cases "fetch env")
  case (FetchRejected e)
  have "relay env req w c = send_catch (str (snd_sessionId req)) e w [Fetch c (str (snd_channelId req))]"
    by (simp add: relay_def Let_def FetchRejected)
  then show ?thesis by (simp only: send_catch_not_fields not_False_eq_True)
next
  case FetchNull
  then show ?thesis by (simp add: relay_def Let_def fail_def)
next
  case (FetchChannel has_send)
  show ?thesis
  proof (cases "sent env")
    case (SendRejected e)
    show ?thesis
    proof (cases has_send)
      case True
      have "relay env req w c = send_catch (str (snd_sessionId req)) e w
          [Fetch c (str (snd_channelId req)), Send c (str (snd_channelId req)) (str (snd_message req))]"
        by (simp add: relay_def Let_def FetchChannel SendRejected True)
      then show ?thesis by (simp only: send_catch_not_fields not_False_eq_True)
    next
      case False
      then show ?thesis
        by (simp add: relay_def Let_def FetchChannel fail_def msg_fields_def msg_no_send_def)
    qed
  next
    case (SendResolved i)
    then show ?thesis
      by (simp add: relay_def Let_def FetchChannel fail_def msg_fields_def msg_no_send_def)
  qed
qed

text \<open>
  Claim C10. In POST /api/send the not-connected check comes before the validation of
  \<open>channelId\<close> and \<open>message\<close>: for every request with a session identifier that has no
  record with a ready client, the handler answers HTTP 400 with the error
  \<open>msg_not_connected\<close>, whatever \<open>channelId\<close> and \<open>message\<close> are; and the validation
  error for \<open>channelId\<close> and \<open>message\<close> is returned only for a session whose client is
  ready.
\<close>

theorem send_not_connected_first:
  "(truthy (snd_sessionId req)
      \<and> \<not> (\<exists>s c. map_get (sessions w) (str (snd_sessionId req)) = Some s
                  \<and> client s = Some c \<and> is_ready env (cid c))
     \<longrightarrow> map_option resp (send env req w) = Some (fail 400 msg_not_connected))
   \<and> (map_option resp (send env req w) = Some (fail 400 msg_fields)
     \<longrightarrow> (\<exists>s c. map_get (sessions w) (str (snd_sessionId req)) = Some s
                  \<and> client s = Some c \<and> is_ready env (cid c)))"
  by (auto simp: send_def relay_not_fields fail_def msg_fields_def msg_not_connected_def
      msg_sessionId_def split: option.splits)

theorem send_not_connected_first_witness:
  "truthy (snd_sessionId ex_send_req) \<and> snd_channelId ex_send_req = None
   \<and> map_option resp (send ex_send_env ex_send_req ex_state) = Some (fail 400 msg_not_connected)
   \<and> map_option resp (send (ex_send_env\<lparr>is_ready := (\<lambda>c. True)\<rparr>) ex_send_req ex_state)
       = Some (fail 400 msg_fields)
   \<and> (\<exists>s c. map_get (sessions ex_state) (str (snd_sessionId ex_send_req)) = Some s
            \<and> client s = Some c)"
proof -
  have h1: "truthy (snd_sessionId ex_send_req)"
    by (simp add: ex_send_req_def truthy_def)
  have h2: "\<not> (\<exists>s c. map_get (sessions ex_state) (str (snd_sessionId ex_send_req)) = Some s
                  \<and> client s = Some c \<and> is_ready ex_send_env (cid c))"
    by (simp add: ex_send_env_def)
  have h3: "map_option resp (send (ex_send_env\<lparr>is_ready := (\<lambda>c. True)\<rparr>) ex_send_req ex_state)
      = Some (fail 400 msg_fields)"
    by (simp add: send_def ex_send_req_def ex_send_env_def ex_state_eq truthy_def str_def)
  from send_not_connected_first [of ex_send_req ex_state ex_send_env] h1 h2
  have a: "map_option resp (send ex_send_env ex_send_req ex_state)
      = Some (fail 400 msg_not_connected)"
    by blast
  from send_not_connected_first [of ex_send_req ex_state "ex_send_env\<lparr>is_ready := (\<lambda>c. True)\<rparr>"] h3
  have b: "\<exists>s c. map_get (sessions ex_state) (str (snd_sessionId ex_send_req)) = Some s
            \<and> client s = Some c"
    by blast
  from h1 a h3 b show ?thesis by (simp add: ex_send_req_def)
qed

section \<open>The bounded wait\<close>

lemma config_wait:
  assumes "truthy (cfg_token req)" and "truthy (cfg_sessionId req)"
    and "construct env = None" and "login env = LoginResolved fired None"
  shows "config env req w =
     config_ok env req (w\<lparr>next_client := Suc (next_client w)\<rparr>)
       (wait_ready (str (cfg_sessionId req)) (wait env)
          (if fired then emit (str (cfg_sessionId req)) EvReady
                           (fresh_client req w (destroy_previous (destroy_old env) (sessions w)
                                                  (str (cfg_sessionId req))))
           else fresh_client req w (destroy_previous (destroy_old env) (sessions w)
                                      (str (cfg_sessionId req)))))
       (user_after_wait env)"
  using assms by (simp add: config_def Let_def)

lemma cid_cleanup: "cid (fst (cleanup a)) = cid (fst a)"
  by (simp add: cleanup_def removeListener_def)

lemma cid_run_listener: "cid (fst (run_listener sid a l)) = cid (fst a)"
  by (cases l) (simp_all add: cid_cleanup)

lemma cid_foldl_run: "cid (fst (foldl (run_listener sid) a ls)) = cid (fst a)"
  by (induction ls arbitrary: a) (simp_all add: cid_run_listener)

lemma cid_emit: "cid (fst (emit sid ev a)) = cid (fst a)"
  by (simp add: emit_def cid_foldl_run)

lemma cid_attach_wait: "cid (fst (attach_wait a)) = cid (fst a)"
  by (simp add: attach_wait_def once_def)

lemma cid_wait_ready: "cid (fst (wait_ready sid wr a)) = cid (fst a)"
  by (cases wr) (simp_all add: wait_ready_def cid_emit cid_cleanup cid_attach_wait)

lemma cid_fresh_client: "cid (fst (fresh_client req w tr)) = next_client w"
  by (simp add: fresh_client_def once_def)

lemma config_ok_get:
  "map_get (sessions (st (config_ok env req w a tag))) (str (cfg_sessionId req)) =
     Some \<lparr>client = Some (fst a), clientId = or_null (cfg_clientId req),
           createdAt = date_now env\<rparr>"
  by (simp add: config_ok_def map_get_set)

lemma config_ok_resp:
  "status (resp (config_ok env req w a tag)) = 200
   \<and> field (resp (config_ok env req w a tag)) ''ok'' = Some (JBool True)
   \<and> field (resp (config_ok env req w a tag)) ''botTag'' = Some (json_of tag)"
  by (simp add: config_ok_def field_def)

text \<open>
  Claim C5. A timeout of the wait is not an error: for every POST /api/config whose login
  succeeds with no user set yet and where neither observer fires within 5000 ms, the
  handler answers HTTP 200 with \<open>ok: true\<close>, the new client is stored in the registry
  under the given session key, and \<open>botTag\<close> is the tag of the user the client has by
  then, \<open>null\<close> if it has none.
\<close>

theorem config_timeout_not_error:
  assumes "truthy (cfg_token req)" and "truthy (cfg_sessionId req)"
    and "construct env = None" and "login env = LoginResolved fired None"
    and "wait env = TimedOut"
  shows "status (resp (config env req w)) = 200
       \<and> field (resp (config env req w)) ''ok'' = Some (JBool True)
       \<and> field (resp (config env req w)) ''botTag'' = Some (json_of (user_after_wait env))
       \<and> (\<exists>c. map_get (sessions (st (config env req w))) (str (cfg_sessionId req)) =
                 Some \<lparr>client = Some c, clientId = or_null (cfg_clientId req),
                       createdAt = date_now env\<rparr>
              \<and> cid c = next_client w)
       \<and> SetTimeout 5000 \<in> set (trace (config env req w))"
proof -
  note c = config_wait [OF assms(1-4)]
  have "SetTimeout 5000 \<in> set (trace (config env req w))"
    unfolding c by (simp add: config_ok_def wait_ready_def assms(5) cleanup_def attach_wait_def)
  then show ?thesis
    unfolding c by (simp add: config_ok_get config_ok_resp cid_wait_ready cid_emit cid_fresh_client)
qed

theorem config_timeout_not_error_witness:
  "truthy (cfg_token ex_req) \<and> truthy (cfg_sessionId ex_req) \<and> construct ex_env_timeout = None
   \<and> login ex_env_timeout = LoginResolved False None \<and> wait ex_env_timeout = TimedOut
   \<and> status (resp (config ex_env_timeout ex_req init)) = 200
   \<and> field (resp (config ex_env_timeout ex_req init)) ''botTag'' = Some JNull
   \<and> map_has (sessions (st (config ex_env_timeout ex_req init))) ''s1''"
proof -
  have h1: "truthy (cfg_token ex_req)" and h2: "truthy (cfg_sessionId ex_req)"
    and h3: "construct ex_env_timeout = None"
    and h4: "login ex_env_timeout = LoginResolved False None"
    and h5: "wait ex_env_timeout = TimedOut"
    by (simp_all add: example_defs)
  have s: "str (cfg_sessionId ex_req) = ''s1''" and u: "user_after_wait ex_env_timeout = None"
    by (simp_all add: example_defs)
  from config_timeout_not_error [OF h1 h2 h3 h4 h5, of init] h1 h2 h3 h4 h5
  show ?thesis unfolding s u map_has_def by (auto simp: json_of_def)
qed

section \<open>An error during the bounded wait\<close>

text \<open>
  Claim C1, as stated: when login succeeds and the error observer fires during the bounded
  wait, POST /api/config responds with HTTP 500 and installs no record. The source catches
  the rejection of the wait (lines 74 to 76) and goes on: at the request below the response
  is 200 and the record is installed.
\<close>

theorem config_error_observer_counterexample:
  "truthy (cfg_token ex_req) \<and> truthy (cfg_sessionId ex_req)
   \<and> login ex_env_error = LoginResolved False None \<and> wait ex_env_error = ErrorFired ex_err
   \<and> status (resp (config ex_env_error ex_req init)) = 200
   \<and> map_has (sessions (st (config ex_env_error ex_req init))) ''s1''
   \<and> \<not> (status (resp (config ex_env_error ex_req init)) = 500
         \<and> map_get (sessions (st (config ex_env_error ex_req init))) ''s1'' = None)"
  by (simp add: config_def config_ok_def handshake_defs example_defs map_has_def)

text \<open>
  Claim C1, amended. An error observer firing during the bounded wait is caught and
  logged, and is not a failure of the request: for every configuration request whose login
  succeeds with no user set yet and whose error observer fires first, the endpoint responds
  with HTTP 200 and \<open>ok: true\<close>, the rejection is written to the error log, and the record
  with the new client is installed under the session key.
\<close>

theorem config_error_observer_swallowed:
  assumes "truthy (cfg_token req)" and "truthy (cfg_sessionId req)"
    and "construct env = None" and "login env = LoginResolved fired None"
    and "wait env = ErrorFired e"
  shows "status (resp (config env req w)) = 200
       \<and> field (resp (config env req w)) ''ok'' = Some (JBool True)
       \<and> field (resp (config env req w)) ''botTag'' = Some (json_of (user_after_wait env))
       \<and> (\<exists>c. map_get (sessions (st (config env req w))) (str (cfg_sessionId req)) =
                 Some \<lparr>client = Some c, clientId = or_null (cfg_clientId req),
                       createdAt = date_now env\<rparr>
              \<and> cid c = next_client w)
       \<and> Console (ErrWaitReady (str (cfg_sessionId req)) e) \<in> set (trace (config env req w))
       \<and> SessionsDelete (str (cfg_sessionId req)) \<notin> set (trace (config env req w))"
proof -
  note c = config_wait [OF assms(1-4)]
  have t: "Console (ErrWaitReady (str (cfg_sessionId req)) e) \<in> set (trace (config env req w))"
    unfolding c by (simp add: config_ok_def wait_ready_def assms(5))
  have d: "SessionsDelete (str (cfg_sessionId req)) \<notin> set (trace (config env req w))"
    unfolding c
    by (cases fired)
      (auto simp: config_ok_def assms(5) handshake_defs split: option.splits)
  from t d show ?thesis
    unfolding c by (simp add: config_ok_get config_ok_resp cid_wait_ready cid_emit cid_fresh_client)
qed

theorem config_error_observer_swallowed_witness:
  "truthy (cfg_token ex_req) \<and> truthy (cfg_sessionId ex_req) \<and> construct ex_env_error = None
   \<and> login ex_env_error = LoginResolved False None \<and> wait ex_env_error = ErrorFired ex_err
   \<and> status (resp (config ex_env_error ex_req ex_state)) = 200
   \<and> map_has (sessions (st (config ex_env_error ex_req ex_state))) ''s1''
   \<and> Console (ErrWaitReady ''s1'' ex_err) \<in> set (trace (config ex_env_error ex_req ex_state))"
proof -
  have h1: "truthy (cfg_token ex_req)" and h2: "truthy (cfg_sessionId ex_req)"
    and h3: "construct ex_env_error = None"
    and h4: "login ex_env_error = LoginResolved False None"
    and h5: "wait ex_env_error = ErrorFired ex_err"
    by (simp_all add: ex_req_def ex_env_error_def truthy_def)
  have s: "str (cfg_sessionId ex_req) = ''s1''"
    by (simp add: ex_req_def str_def)
  from config_error_observer_swallowed [OF h1 h2 h3 h4 h5, of ex_state] h1 h2 h3 h4 h5
  show ?thesis unfolding s map_has_def by auto
qed

section \<open>Reconfiguring with a login that fails\<close>

text \<open>
  Claim C9. If POST /api/config is invoked for a session key that already has a record
  with a client and the new login then fails, the earlier session is neither preserved nor
  restored: the response is HTTP 500, the registry afterwards holds no record for the key,
  and \<^verbatim>\<open>destroy\<close> was requested on the earlier client before the login was attempted.
\<close>

theorem config_relogin_failure_drops_previous:
  assumes "truthy (cfg_token req)" and "truthy (cfg_sessionId req)"
    and "map_get (sessions w) (str (cfg_sessionId req)) = Some old" and "client old = Some c1"
    and "construct env = None" and "login env = LoginRejected e"
  shows "status (resp (config env req w)) = 500
       \<and> map_get (sessions (st (config env req w))) (str (cfg_sessionId req)) = None
       \<and> precedes (Destroy (cid c1) (destroy_old env))
                  (Login (next_client w) (str (cfg_token req)))
                  (trace (config env req w))
       \<and> destroy_requests (cid c1) (trace (config env req w)) = 1"
  using assms
  by (simp add: config_def Let_def config_catch_def fail_def map_get_delete fresh_client_def
      destroy_previous_def destroy_requests_def)

theorem config_relogin_failure_drops_previous_witness:
  "truthy (cfg_token ex_req) \<and> truthy (cfg_sessionId ex_req)
   \<and> map_has (sessions ex_state) (str (cfg_sessionId ex_req))
   \<and> construct ex_env_bad = None \<and> login ex_env_bad = LoginRejected ex_err
   \<and> status (resp (config ex_env_bad ex_req ex_state)) = 500
   \<and> map_get (sessions (st (config ex_env_bad ex_req ex_state))) ''s1'' = None
   \<and> precedes (Destroy 0 Resolved) (Login 1 ''tok'') (trace (config ex_env_bad ex_req ex_state))"
proof -
  have h1: "truthy (cfg_token ex_req)" and h2: "truthy (cfg_sessionId ex_req)"
    and h5: "construct ex_env_bad = None" and h6: "login ex_env_bad = LoginRejected ex_err"
    by (simp_all add: ex_req_def ex_env_bad_def truthy_def)
  have h3: "map_get (sessions ex_state) (str (cfg_sessionId ex_req)) =
      Some \<lparr>client = Some \<lparr>cid = 0, listeners = [(EvReady, LogReady)]\<rparr>,
            clientId = Some ''app1'', createdAt = 1000\<rparr>"
    by (simp add: ex_state_eq ex_req_def str_def)
  have h4: "client \<lparr>client = Some \<lparr>cid = 0, listeners = [(EvReady, LogReady)]\<rparr>,
            clientId = Some ''app1'', createdAt = 1000\<rparr> = Some \<lparr>cid = 0, listeners = [(EvReady, LogReady)]\<rparr>"
    by simp
  have v: "str (cfg_sessionId ex_req) = ''s1''" "str (cfg_token ex_req) = ''tok''"
    "destroy_old ex_env_bad = Resolved" "next_client ex_state = 1"
    by (simp_all add: ex_req_def str_def ex_env_bad_def ex_state_eq)
  from config_relogin_failure_drops_previous [OF h1 h2 h3 h4 h5 h6] h1 h2 h3 h5 h6
  show ?thesis unfolding v map_has_def by simp
qed

section \<open>The order of observers and login\<close>

lemmas wait_defs = fresh_client_def wait_ready_def cleanup_def attach_wait_def emit_def
  once_def removeListener_def

lemma destroy_previous_cases:
  "destroy_previous out r sid = [] \<or> (\<exists>c. destroy_previous out r sid = [Destroy c out])"
  by (simp add: destroy_previous_def split: option.splits)

text \<open>
  Claim C8, as stated: the ready observer used by the bounded wait is registered before
  login is initiated. In the source that observer (\<open>OnReady\<close>, line 70) is attached after
  \<^verbatim>\<open>await discordClient.login(token)\<close> has resolved; the observer attached before the
  login (line 54) only logs. At the request below the login comes first.
\<close>

theorem config_wait_observer_counterexample:
  "precedes (Login 0 ''tok'') (Once 0 EvReady OnReady) (trace (config ex_env_timeout ex_req init))
   \<and> \<not> precedes (Once 0 EvReady OnReady) (Login 0 ''tok'')
          (trace (config ex_env_timeout ex_req init))"
  by (simp add: config_def config_ok_def handshake_defs example_defs)

text \<open>
  Claim C8, amended. In every execution of the handshake (a validated request whose
  client is constructed), a logging ready observer is registered before login is
  initiated. The observers of the bounded wait are registered after login has resolved,
  and exactly when the client has no user at that moment, which is how a readiness that
  came during the login is not waited for. Whenever the handler then stores the client
  (ready, error or timeout having ended the wait, or no wait at all), neither observer of
  the wait is attached to it any more.
\<close>

theorem config_observers:
  assumes "truthy (cfg_token req)" and "truthy (cfg_sessionId req)" and "construct env = None"
  shows "precedes (Once (next_client w) EvReady LogReady)
                  (Login (next_client w) (str (cfg_token req))) (trace (config env req w))
       \<and> \<not> precedes (Once (next_client w) EvReady OnReady)
                    (Login (next_client w) (str (cfg_token req))) (trace (config env req w))
       \<and> ((\<exists>fired. login env = LoginResolved fired None) \<longrightarrow>
            precedes (Login (next_client w) (str (cfg_token req)))
                     (Once (next_client w) EvReady OnReady) (trace (config env req w))
          \<and> precedes (Login (next_client w) (str (cfg_token req)))
                     (Once (next_client w) EvError OnErr) (trace (config env req w)))
       \<and> (\<not> (\<exists>fired. login env = LoginResolved fired None) \<longrightarrow>
            Once (next_client w) EvReady OnReady \<notin> set (trace (config env req w))
          \<and> Once (next_client w) EvError OnErr \<notin> set (trace (config env req w)))
       \<and> (status (resp (config env req w)) = 200 \<longrightarrow>
            (\<exists>s c. map_get (sessions (st (config env req w))) (str (cfg_sessionId req)) = Some s
                  \<and> client s = Some c \<and> cid c = next_client w
                  \<and> (EvReady, OnReady) \<notin> set (listeners c)
                  \<and> (EvError, OnErr) \<notin> set (listeners c)))"
proof -
  from destroy_previous_cases [of "destroy_old env" "sessions w" "str (cfg_sessionId req)"]
  obtain tr0 where tr0: "destroy_previous (destroy_old env) (sessions w) (str (cfg_sessionId req)) = tr0"
    and cases0: "tr0 = [] \<or> (\<exists>c. tr0 = [Destroy c (destroy_old env)])"
    by blast
  show ?thesis
  proof (cases "login env")
    case (LoginRejected e)
    with assms cases0 show ?thesis
      by (auto simp: config_def Let_def tr0 config_catch_def fail_def fresh_client_def)
  next
    case (LoginResolved fired usr)
    show ?thesis
    proof (cases usr)
      case None
      with LoginResolved assms cases0 show ?thesis
        by (cases "wait env"; cases fired)
          (auto simp: config_def Let_def tr0 config_ok_def map_get_set wait_defs)
    next
      case (Some u)
      with LoginResolved assms cases0 show ?thesis
        by (cases fired)
          (auto simp: config_def Let_def tr0 config_ok_def map_get_set wait_defs)
    qed
  qed
qed

theorem config_observers_witness:
  "truthy (cfg_token ex_req) \<and> truthy (cfg_sessionId ex_req) \<and> construct ex_env_timeout = None
   \<and> login ex_env_timeout = LoginResolved False None
   \<and> precedes (Once 0 EvReady LogReady) (Login 0 ''tok'')
       (trace (config ex_env_timeout ex_req init))
   \<and> precedes (Login 0 ''tok'') (Once 0 EvReady OnReady)
       (trace (config ex_env_timeout ex_req init))"
proof -
  have h1: "truthy (cfg_token ex_req)" and h2: "truthy (cfg_sessionId ex_req)"
    and h3: "construct ex_env_timeout = None"
    and h4: "login ex_env_timeout = LoginResolved False None"
    by (simp_all add: ex_req_def ex_env_timeout_def truthy_def)
  have v: "str (cfg_token ex_req) = ''tok''" "next_client init = 0"
    by (simp_all add: ex_req_def str_def init_def)
  have ex: "\<exists>fired. login ex_env_timeout = LoginResolved fired None"
    using h4 by blast
  from config_observers [OF h1 h2 h3, of init, unfolded v] ex
  have "precedes (Once 0 EvReady LogReady) (Login 0 ''tok'')
          (trace (config ex_env_timeout ex_req init))
      \<and> precedes (Login 0 ''tok'') (Once 0 EvReady OnReady)
          (trace (config ex_env_timeout ex_req init))"
    by blast
  with h1 h2 h3 h4 show ?thesis by simp
qed

section \<open>The sweep\<close>

lemma sweep_loop_fst:
  "fst (sweep_loop destroy now es (r, tr)) =
     filter (\<lambda>p. \<not> (\<exists>s. (fst p, s) \<in> set es \<and> expired now s)) r"
proof (induction es arbitrary: r tr)
  case Nil
  then show ?case by simp
next
  case (Cons e es)
  obtain k s where e: "e = (k, s)" by (cases e)
  show ?case
  proof (cases "expired now s")
    case True
    then show ?thesis
      by (simp add: e Cons.IH map_delete_filter) (rule filter_cong, auto)
  next
    case False
    then show ?thesis
      by (simp add: e Cons.IH) (rule filter_cong, auto)
  qed
qed

lemma sweep_loop_destroys:
  "filter any_destroy (snd (sweep_loop destroy now es (r, tr))) =
     filter any_destroy tr @
     concat (map (\<lambda>p. case client (snd p) of None \<Rightarrow> []
                       | Some c \<Rightarrow> [Destroy (cid c) (destroy (cid c))])
               (filter (\<lambda>p. expired now (snd p)) es))"
proof (induction es arbitrary: r tr)
  case Nil
  then show ?case by simp
next
  case (Cons e es)
  obtain k s where e: "e = (k, s)" by (cases e)
  show ?case
    by (cases "client s") (simp_all add: e Cons.IH)
qed

lemma sweep_sessions:
  assumes "distinct (map fst (sessions w))"
  shows "sessions (fst (sweep destroy now w)) =
           filter (\<lambda>p. \<not> expired now (snd p)) (sessions w)"
proof -
  have "(\<exists>s. (fst p, s) \<in> set (sessions w) \<and> expired now s) = expired now (snd p)"
    if "p \<in> set (sessions w)" for p
  proof -
    have "s = snd p" if "(fst p, s) \<in> set (sessions w)" for s
      using assms that \<open>p \<in> set (sessions w)\<close>
      by (metis eq_key_imp_eq_value prod.collapse)
    with that show ?thesis by (metis prod.collapse)
  qed
  then show ?thesis
    by (simp add: sweep_def sweep_loop_fst cong: filter_cong)
qed

text \<open>
  Claim C4. For every registry state and every time \<open>now\<close>, the sweep removes exactly the
  records with \<open>now - createdAt > 3600000\<close> and leaves every other record as it was, in
  its place; it requests \<^verbatim>\<open>destroy\<close> on the client of each evicted record that has one,
  and on no other; how those requests settle changes nothing; and the records that remain
  and the requests made do not depend on the order in which the registry lists its entries.
\<close>

theorem sweep_removes_exactly_expired:
  assumes "distinct (map fst (sessions w))"
  shows "sessions (fst (sweep destroy now w)) =
           filter (\<lambda>p. \<not> now - createdAt (snd p) > 3600000) (sessions w)
       \<and> next_client (fst (sweep destroy now w)) = next_client w
       \<and> filter any_destroy (snd (sweep destroy now w)) =
           concat (map (\<lambda>p. case client (snd p) of None \<Rightarrow> []
                             | Some c \<Rightarrow> [Destroy (cid c) (destroy (cid c))])
                     (filter (\<lambda>p. now - createdAt (snd p) > 3600000) (sessions w)))
       \<and> fst (sweep destroy' now w) = fst (sweep destroy now w)
       \<and> (\<forall>r'. distinct (map fst r') \<and> set r' = set (sessions w) \<longrightarrow>
             set (sessions (fst (sweep destroy now (w\<lparr>sessions := r'\<rparr>)))) =
               set (sessions (fst (sweep destroy now w)))
           \<and> set (filter any_destroy (snd (sweep destroy now (w\<lparr>sessions := r'\<rparr>)))) =
               set (filter any_destroy (snd (sweep destroy now w))))"
proof -
  have a: "sessions (fst (sweep d now v)) = filter (\<lambda>p. \<not> now - createdAt (snd p) > 3600000) (sessions v)"
    if "distinct (map fst (sessions v))" for d v
    using sweep_sessions [OF that] by (simp add: expired_def)
  have b: "next_client (fst (sweep d now v)) = next_client v" for d v
    by (simp add: sweep_def)
  have c: "filter any_destroy (snd (sweep destroy now v)) =
           concat (map (\<lambda>p. case client (snd p) of None \<Rightarrow> []
                             | Some c \<Rightarrow> [Destroy (cid c) (destroy (cid c))])
                     (filter (\<lambda>p. now - createdAt (snd p) > 3600000) (sessions v)))" for v
    by (simp add: sweep_def sweep_loop_destroys expired_def)
  have d: "fst (sweep destroy' now w) = fst (sweep destroy now w)"
    by (rule state.equality) (simp_all add: a [OF assms] b)
  have e: "set (sessions (fst (sweep destroy now (w\<lparr>sessions := r'\<rparr>)))) =
               set (sessions (fst (sweep destroy now w)))"
    if "distinct (map fst r')" and "set r' = set (sessions w)" for r'
    using that by (simp add: a assms)
  have f: "set (filter any_destroy (snd (sweep destroy now (w\<lparr>sessions := r'\<rparr>)))) =
               set (filter any_destroy (snd (sweep destroy now w)))"
    if "set r' = set (sessions w)" for r'
    unfolding c using that by simp
  from a [OF assms] b c d e f show ?thesis by blast
qed

theorem sweep_removes_exactly_expired_witness:
  "distinct (map fst (sessions ex_sweep_state))
   \<and> sessions (fst (sweep (\<lambda>c. Rejected ex_err) 3600001 ex_sweep_state)) =
       [(''b'', \<lparr>client = None, clientId = None, createdAt = 1\<rparr>),
        (''c'', \<lparr>client = Some \<lparr>cid = 2, listeners = []\<rparr>, clientId = None, createdAt = 1000\<rparr>)]
   \<and> filter any_destroy (snd (sweep (\<lambda>c. Rejected ex_err) 3600001 ex_sweep_state)) =
       [Destroy 0 (Rejected ex_err)]"
proof -
  have h: "distinct (map fst (sessions ex_sweep_state))"
    by (simp add: ex_sweep_state_def)
  from sweep_removes_exactly_expired [OF h, of "\<lambda>c. Rejected ex_err" 3600001] h
  show ?thesis by (simp add: ex_sweep_state_def)
qed

section \<open>The invariant of the state\<close>















lemma config_resolved:
  assumes "truthy (cfg_token req)" and "truthy (cfg_sessionId req)"
    and "construct env = None" and "login env = LoginResolved fired usr"
  shows "\<exists>a tag. config env req w =
            config_ok env req (w\<lparr>next_client := Suc (next_client w)\<rparr>) a tag
          \<and> cid (fst a) = next_client w"
proof (cases usr)
  case None
  with assms have "config env req w =
      config_ok env req (w\<lparr>next_client := Suc (next_client w)\<rparr>)
        (wait_ready (str (cfg_sessionId req)) (wait env)
          (if fired then emit (str (cfg_sessionId req)) EvReady
                           (fresh_client req w (destroy_previous (destroy_old env) (sessions w)
                                                  (str (cfg_sessionId req))))
           else fresh_client req w (destroy_previous (destroy_old env) (sessions w)
                                      (str (cfg_sessionId req)))))
        (user_after_wait env)"
    by (simp add: config_wait)
  moreover have "cid (fst (wait_ready (str (cfg_sessionId req)) (wait env)
          (if fired then emit (str (cfg_sessionId req)) EvReady
                           (fresh_client req w (destroy_previous (destroy_old env) (sessions w)
                                                  (str (cfg_sessionId req))))
           else fresh_client req w (destroy_previous (destroy_old env) (sessions w)
                                      (str (cfg_sessionId req)))))) = next_client w"
    by (simp add: cid_wait_ready cid_emit cid_fresh_client)
  ultimately show ?thesis by blast
next
  case (Some u)
  with assms have "config env req w =
      config_ok env req (w\<lparr>next_client := Suc (next_client w)\<rparr>)
        (if fired then emit (str (cfg_sessionId req)) EvReady
                           (fresh_client req w (destroy_previous (destroy_old env) (sessions w)
                                                  (str (cfg_sessionId req))))
           else fresh_client req w (destroy_previous (destroy_old env) (sessions w)
                                      (str (cfg_sessionId req))))
        usr"
    by (simp add: config_def Let_def)
  moreover have "cid (fst (if fired then emit (str (cfg_sessionId req)) EvReady
                           (fresh_client req w (destroy_previous (destroy_old env) (sessions w)
                                                  (str (cfg_sessionId req))))
           else fresh_client req w (destroy_previous (destroy_old env) (sessions w)
                                      (str (cfg_sessionId req))))) = next_client w"
    by (simp add: cid_emit cid_fresh_client)
  ultimately show ?thesis by blast
qed


section \<open>Steps and the handler run alone\<close>





text \<open>So is \<open>disconnect\<close> the composition of the two steps of a disconnect request.\<close>

lemma run_disconnect_alone:
  "run [StartDisconnect out sessionId, Resume (length (sys_jobs s))] s =
     \<lparr>sys_state = st (disconnect out sessionId (sys_state s)),
      sys_jobs = sys_jobs s @ [Answered (resp (disconnect out sessionId (sys_state s)))],
      sys_trace = sys_trace s @ trace (disconnect out sessionId (sys_state s))\<rparr>"
  by (simp add: disconnect_def disconnect_start_def disconnect_resume_def resume_job_def
      split: option.splits)

section \<open>One record per key under every schedule\<close>




















section \<open>Throws during a configuration\<close>

text \<open>
  Claim C2, as stated: whenever the login or any other step after validation throws, the
  handler deletes the key and responds with HTTP 500. Two steps after validation throw
  without reaching the handler's \<^verbatim>\<open>catch\<close>: the \<^verbatim>\<open>await\<close> of the previous client's
  \<^verbatim>\<open>destroy\<close> (line 45, caught and ignored there) and the \<^verbatim>\<open>await\<close> of the bounded wait
  (lines 62 to 76, caught and logged there). At the request below the previous client's
  \<^verbatim>\<open>destroy\<close> rejects; the response is 200 and the key has a record afterwards.
\<close>

theorem config_destroy_rejection_counterexample:
  "truthy (cfg_token ex_req) \<and> truthy (cfg_sessionId ex_req)
   \<and> destroy_old ex_env_ready = Rejected ex_err
   \<and> Destroy 0 (Rejected ex_err) \<in> set (trace (config ex_env_ready ex_req ex_state))
   \<and> status (resp (config ex_env_ready ex_req ex_state)) = 200
   \<and> map_has (sessions (st (config ex_env_ready ex_req ex_state))) ''s1''
   \<and> \<not> (status (resp (config ex_env_ready ex_req ex_state)) = 500
         \<and> map_get (sessions (st (config ex_env_ready ex_req ex_state))) ''s1'' = None)"
  by (simp add: config_def config_ok_def wait_defs destroy_previous_def ex_state_eq
      ex_env_ready_def ex_req_def truthy_def str_def map_has_def Let_def)

text \<open>
  Claim C2, amended. For every POST /api/config request that passes validation, if the
  construction of the client or the login throws, the handler deletes the request's
  session key from the registry before it responds with HTTP 500 and the text of the
  thrown value, so that the registry has no record for that key afterwards. These are the
  only throws that lead to 500: when construction and login succeed the response is 200 and
  the key has a record, also when the previous client's \<^verbatim>\<open>destroy\<close> or the bounded wait
  rejects.
\<close>

theorem config_failure_removes_key:
  assumes "truthy (cfg_token req)" and "truthy (cfg_sessionId req)"
  shows "(construct env = Some e \<or> (construct env = None \<and> login env = LoginRejected e) \<longrightarrow>
            resp (config env req w) = fail 500 (error_text e)
          \<and> status (resp (config env req w)) = 500
          \<and> map_get (sessions (st (config env req w))) (str (cfg_sessionId req)) = None
          \<and> \<not> map_has (sessions (st (config env req w))) (str (cfg_sessionId req))
          \<and> SessionsDelete (str (cfg_sessionId req)) \<in> set (trace (config env req w)))
       \<and> (construct env = None \<and> login env = LoginResolved fired usr \<longrightarrow>
            status (resp (config env req w)) = 200
          \<and> map_has (sessions (st (config env req w))) (str (cfg_sessionId req)))
       \<and> (status (resp (config env req w)) = 500 \<longleftrightarrow>
            construct env \<noteq> None \<or> (\<exists>e'. login env = LoginRejected e'))"
proof -
  have bad: "resp (config env req w) = fail 500 (error_text e')
          \<and> status (resp (config env req w)) = 500
          \<and> map_get (sessions (st (config env req w))) (str (cfg_sessionId req)) = None
          \<and> \<not> map_has (sessions (st (config env req w))) (str (cfg_sessionId req))
          \<and> SessionsDelete (str (cfg_sessionId req)) \<in> set (trace (config env req w))"
    if "construct env = Some e' \<or> (construct env = None \<and> login env = LoginRejected e')" for e'
  proof -
    from config_rejected [OF assms that] obtain w' tr
      where c: "config env req w = config_catch (str (cfg_sessionId req)) e' w' tr" by blast
    show ?thesis
      unfolding c map_has_def by (simp add: config_catch_get) (simp add: config_catch_def fail_def)
  qed
  have good: "status (resp (config env req w)) = 200
          \<and> map_has (sessions (st (config env req w))) (str (cfg_sessionId req))"
    if "construct env = None" and "login env = LoginResolved f u" for f u
  proof -
    from config_resolved [OF assms that] obtain a tag
      where c: "config env req w =
          config_ok env req (w\<lparr>next_client := Suc (next_client w)\<rparr>) a tag" by blast
    show ?thesis
      unfolding c map_has_def by (simp add: config_ok_get config_ok_resp)
  qed
  have iff: "status (resp (config env req w)) = 500 \<longleftrightarrow>
            construct env \<noteq> None \<or> (\<exists>e'. login env = LoginRejected e')"
  proof (cases "construct env")
    case (Some e')
    with bad [of e'] show ?thesis by (simp add: fail_def)
  next
    case None
    show ?thesis
    proof (cases "login env")
      case (LoginRejected e')
      with None bad [of e'] show ?thesis by (simp add: fail_def)
    next
      case (LoginResolved f u)
      with None good [of f u] show ?thesis by simp
    qed
  qed
  from bad [of e] good [of fired usr] iff show ?thesis by blast
qed

theorem config_failure_removes_key_witness:
  "truthy (cfg_token ex_req) \<and> truthy (cfg_sessionId ex_req)
   \<and> construct ex_env_bad = None \<and> login ex_env_bad = LoginRejected ex_err
   \<and> map_has (sessions ex_state) ''s1''
   \<and> resp (config ex_env_bad ex_req ex_state) = fail 500 ''boom''
   \<and> \<not> map_has (sessions (st (config ex_env_bad ex_req ex_state))) ''s1''
   \<and> construct ex_env_ready = None \<and> destroy_old ex_env_ready = Rejected ex_err
   \<and> status (resp (config ex_env_ready ex_req ex_state)) = 200
   \<and> map_has (sessions (st (config ex_env_ready ex_req ex_state))) ''s1''"
proof -
  have h1: "truthy (cfg_token ex_req)" and h2: "truthy (cfg_sessionId ex_req)"
    by (simp_all add: example_defs)
  have h3: "construct ex_env_bad = None \<and> login ex_env_bad = LoginRejected ex_err"
    by (simp add: example_defs)
  have h4: "map_has (sessions ex_state) ''s1''"
    by (simp add: ex_state_eq map_has_def)
  have h5: "construct ex_env_ready = None
      \<and> login ex_env_ready = LoginResolved True (Some ''bot#0001'')"
    and h6: "destroy_old ex_env_ready = Rejected ex_err"
    by (simp_all add: ex_env_ready_def)
  have v: "str (cfg_sessionId ex_req) = ''s1''" "error_text ex_err = ''boom''"
    by (simp_all add: ex_req_def str_def ex_err_def truthy_def)
  from config_failure_removes_key
    [OF h1 h2, where env = ex_env_bad and e = ex_err and w = ex_state] h3
  have a: "resp (config ex_env_bad ex_req ex_state) = fail 500 ''boom''
      \<and> \<not> map_has (sessions (st (config ex_env_bad ex_req ex_state))) ''s1''"
    unfolding v by blast
  from config_failure_removes_key
    [OF h1 h2, where env = ex_env_ready and w = ex_state and fired = True
      and usr = "Some ''bot#0001''"] h5
  have b: "status (resp (config ex_env_ready ex_req ex_state)) = 200
      \<and> map_has (sessions (st (config ex_env_ready ex_req ex_state))) ''s1''"
    unfolding v by blast
  from h1 h2 h3 h4 h5 h6 a b show ?thesis by simp
qed

end
